theory Spec2Isabelle
  imports Complex_Main
begin

section \<open>Data model (types.ts)\<close>

text \<open>
  The governance engine's types, as declared in \<^verbatim>\<open>src/types.ts\<close>. An optional
  field \<^verbatim>\<open>f?: T\<close> is a \<open>T option\<close>; a \<^verbatim>\<open>Record<string, T>\<close> is a map of its own
  keys; a JavaScript \<^verbatim>\<open>number\<close> that is measured (scores, times, factor values) is a
  \<open>real\<close>, so arithmetic is exact and binary floating point is not modelled; counters
  are \<open>nat\<close>; clock components and priorities are \<open>int\<close>.
\<close>

datatype TrustTier = Untrusted | Restricted | Standard | Trusted | Privileged

datatype PolicyHookName = BeforeToolCall | MessageSending | BeforeAgentStart | SessionStart

datatype RiskLevel = Low | Medium | High | Critical

datatype AuditLevel = AuditMinimal | AuditStandard | AuditVerbose

datatype EscalationTarget = Human

datatype Action = Allow | Deny | Escalate

text \<open>
  \<^verbatim>\<open>RuleEffect\<close>: the tagged union over \<^verbatim>\<open>action\<close>. The reason of a deny effect is
  optional here because the evaluator itself tests \<^verbatim>\<open>"reason" in match.effect\<close>.
\<close>

datatype RuleEffect =
    EffAllow
  | EffDeny "string option"
  | EffEscalate EscalationTarget "real option" "Action option"
  | EffAudit "AuditLevel option"

text \<open>A value of type \<^verbatim>\<open>unknown\<close> read from tool parameters or metadata.\<close>

datatype JsValue = JsString string | JsBool bool | JsNumber real | JsNull | JsObject

text \<open>\<^verbatim>\<open>string | string[]\<close>, with the \<^verbatim>\<open>Array.isArray(x) ? x : [x]\<close> idiom.\<close>

datatype StringOrArray = One string | Many "string list"

fun asArray :: "StringOrArray \<Rightarrow> string list" where
  "asArray (One s) = [s]"
| "asArray (Many ss) = ss"

datatype ParamMatcher =
    MEquals JsValue
  | MContains string
  | MMatches string
  | MStartsWith string
  | MIn "JsValue list"

record ToolCondition =
  tool_name :: "StringOrArray option"
  tool_params :: "(string \<rightharpoonup> ParamMatcher) option"

record TimeCondition =
  window :: "string option"
  after :: "string option"
  before :: "string option"
  days :: "int list option"

record AgentCondition =
  agent_id :: "StringOrArray option"
  agent_trustTier :: "TrustTier list option"
  minScore :: "real option"
  maxScore :: "real option"

record ContextCondition =
  conversationContains :: "StringOrArray option"
  messageContains :: "StringOrArray option"
  hasMetadata :: "StringOrArray option"
  cond_channel :: "StringOrArray option"
  cond_sessionKey :: "string option"

record RiskCondition =
  minRisk :: "RiskLevel option"
  maxRisk :: "RiskLevel option"

datatype FrequencyScope = ScopeAgent | ScopeSession | ScopeGlobal

record FrequencyCondition =
  maxCount :: nat
  windowSeconds :: real
  freq_scope :: "FrequencyScope option"

record IntentCondition =
  intent_description :: string
  confidence :: "real option"

datatype Condition =
    ToolCond ToolCondition
  | TimeCond TimeCondition
  | AgentCond AgentCondition
  | ContextCond ContextCondition
  | RiskCond RiskCondition
  | FrequencyCond FrequencyCondition
  | IntentCond IntentCondition
  | AnyCond "Condition list"
  | NotCond Condition

text \<open>The discriminant \<^verbatim>\<open>Condition["type"]\<close>, the key of the evaluator registry.\<close>

datatype ConditionType =
  TyTool | TyTime | TyAgent | TyContext | TyRisk | TyFrequency | TyIntent | TyAny | TyNot

fun conditionType :: "Condition \<Rightarrow> ConditionType" where
  "conditionType (ToolCond _) = TyTool"
| "conditionType (TimeCond _) = TyTime"
| "conditionType (AgentCond _) = TyAgent"
| "conditionType (ContextCond _) = TyContext"
| "conditionType (RiskCond _) = TyRisk"
| "conditionType (FrequencyCond _) = TyFrequency"
| "conditionType (IntentCond _) = TyIntent"
| "conditionType (AnyCond _) = TyAny"
| "conditionType (NotCond _) = TyNot"

record Rule =
  rule_id :: string
  rule_description :: "string option"
  conditions :: "Condition list"
  effect :: RuleEffect
  minTrust :: "TrustTier option"
  maxTrust :: "TrustTier option"

record PolicyScope =
  agents :: "string list option"
  excludeAgents :: "string list option"
  channels :: "string list option"
  hooks :: "PolicyHookName list option"

record Policy =
  policy_id :: string
  policy_name :: string
  version :: string
  policy_description :: "string option"
  scope :: PolicyScope
  rules :: "Rule list"
  enabled :: "bool option"
  priority :: "int option"

record TimeContext =
  hour :: int
  minute :: int
  dayOfWeek :: int
  date :: string
  timezone :: string

record TrustSnapshot =
  trust_score :: real
  tier :: TrustTier

text \<open>
  \<^verbatim>\<open>EvaluationContext\<close>. The field \<open>crossAgent\<close> is the enrichment that the engine
  copies from the enriched context into the audit context; it is kept as an opaque
  value.
\<close>

record EvaluationContext =
  hook :: PolicyHookName
  agentId :: string
  sessionKey :: string
  channel :: "string option"
  toolName :: "string option"
  toolParams :: "(string \<rightharpoonup> JsValue) option"
  messageContent :: "string option"
  messageTo :: "string option"
  timestamp :: real
  time :: TimeContext
  trust :: TrustSnapshot
  conversationContext :: "string list option"
  metadata :: "(string \<rightharpoonup> JsValue) option"
  crossAgent :: "JsValue option"

record RiskFactor =
  name :: string
  weight :: real
  "value" :: real
  description :: string

record RiskAssessment =
  level :: RiskLevel
  score :: int
  factors :: "RiskFactor list"

record MatchedPolicy =
  policyId :: string
  ruleId :: string
  matched_effect :: RuleEffect

record FrequencyEntry =
  entry_timestamp :: real
  entry_agentId :: string
  entry_sessionKey :: string
  entry_toolName :: "string option"

record TimeWindow =
  window_name :: string
  window_start :: string
  window_end :: string
  window_days :: "int list option"
  window_timezone :: "string option"

section \<open>Frequency counter (frequency-tracker.ts)\<close>

text \<open>
  Modelled from the spec: \<^verbatim>\<open>FrequencyTrackerImpl\<close> (\<^verbatim>\<open>src/frequency-tracker.ts\<close> is
  not among the sources). It is a fixed-capacity ring of slots with a head index that
  advances modulo the capacity on each \<^verbatim>\<open>record\<close>; \<^verbatim>\<open>count\<close> scans the ring and
  tallies the entries whose timestamp is within the window and whose scope field
  matches: scope agent by agent id, scope session by session key, scope global all.
  The wall clock read by \<^verbatim>\<open>count\<close> is the argument \<open>now\<close>, in milliseconds.
\<close>

record FrequencyTracker =
  buffer :: "FrequencyEntry option list"
  head :: nat

definition newFrequencyTracker :: "nat \<Rightarrow> FrequencyTracker" where
  "newFrequencyTracker capacity = \<lparr> buffer = replicate capacity None, head = 0 \<rparr>"

definition tracker_record :: "FrequencyTracker \<Rightarrow> FrequencyEntry \<Rightarrow> FrequencyTracker" where
  "tracker_record t e =
     (if length (buffer t) = 0 then t
      else \<lparr> buffer = (buffer t)[head t := Some e],
             head = (head t + 1) mod length (buffer t) \<rparr>)"

definition scopeMatches :: "FrequencyScope \<Rightarrow> string \<Rightarrow> string \<Rightarrow> FrequencyEntry \<Rightarrow> bool" where
  "scopeMatches sc aid skey e =
     (case sc of
        ScopeAgent \<Rightarrow> entry_agentId e = aid
      | ScopeSession \<Rightarrow> entry_sessionKey e = skey
      | ScopeGlobal \<Rightarrow> True)"

definition withinWindow :: "real \<Rightarrow> real \<Rightarrow> FrequencyEntry \<Rightarrow> bool" where
  "withinWindow now secs e = (now - secs * 1000 \<le> entry_timestamp e)"

definition tracker_count ::
  "FrequencyTracker \<Rightarrow> real \<Rightarrow> real \<Rightarrow> FrequencyScope \<Rightarrow> string \<Rightarrow> string \<Rightarrow> nat" where
  "tracker_count t now secs sc aid skey =
     length (filter (\<lambda>slot. case slot of
                               None \<Rightarrow> False
                             | Some e \<Rightarrow> withinWindow now secs e \<and> scopeMatches sc aid skey e)
                    (buffer t))"

definition tracker_clear :: "FrequencyTracker \<Rightarrow> FrequencyTracker" where
  "tracker_clear t = \<lparr> buffer = replicate (length (buffer t)) None, head = 0 \<rparr>"

section \<open>Condition dependencies and runtime helpers\<close>

text \<open>
  \<^verbatim>\<open>ConditionDeps\<close>. A compiled \<^verbatim>\<open>RegExp\<close> is represented by its \<^verbatim>\<open>test\<close> function.
\<close>

record ConditionDeps =
  regexCache :: "string \<rightharpoonup> (string \<Rightarrow> bool)"
  timeWindows :: "string \<rightharpoonup> TimeWindow"
  risk :: RiskAssessment
  frequencyTracker :: FrequencyTracker

text \<open>
  The helpers of \<^verbatim>\<open>src/util.ts\<close> and of the JavaScript runtime that the condition
  evaluators call are parameters of the model (\<^verbatim>\<open>util.ts\<close> is not among the sources):
  \<open>compileRegExp p\<close> is \<^verbatim>\<open>new RegExp(p)\<close>, with \<open>None\<close> when the constructor throws;
  \<open>globToRegex\<close>, \<open>parseTimeToMinutes\<close> and \<open>isInTimeRange\<close> are the functions of
  those names; \<open>numberToString\<close> is the conversion a template literal applies to a
  number.
\<close>

record Util =
  compileRegExp :: "string \<Rightarrow> (string \<Rightarrow> bool) option"
  globToRegex :: "string \<Rightarrow> (string \<Rightarrow> bool)"
  parseTimeToMinutes :: "string \<Rightarrow> int"
  isInTimeRange :: "int \<Rightarrow> int \<Rightarrow> int \<Rightarrow> bool"
  numberToString :: "real \<Rightarrow> string"

text \<open>\<^verbatim>\<open>String.prototype.includes\<close>: the pattern occurs as a contiguous substring.\<close>

fun str_includes :: "string \<Rightarrow> string \<Rightarrow> bool" where
  "str_includes [] p = (p = [])"
| "str_includes (c # t) p = (take (length p) (c # t) = p \<or> str_includes t p)"

section \<open>Context conditions (conditions/context.ts)\<close>

definition matchesAny ::
  "Util \<Rightarrow> StringOrArray \<Rightarrow> string list \<Rightarrow> (string \<rightharpoonup> (string \<Rightarrow> bool)) \<Rightarrow> bool" where
  "matchesAny u patterns texts cache =
     list_ex (\<lambda>pattern.
        case cache pattern of
          Some re \<Rightarrow> list_ex re texts
        | None \<Rightarrow>
            (case compileRegExp u pattern of
               Some compiled \<Rightarrow> list_ex compiled texts
             | None \<Rightarrow> list_ex (\<lambda>t. str_includes t pattern) texts))
       (asArray patterns)"

text \<open>
  \<^verbatim>\<open>evaluateContextCondition\<close>: five guarded blocks in the source's order, each of
  which may return false early; \<^verbatim>\<open>!s\<close> on an optional string holds for
  \<^verbatim>\<open>undefined\<close> and for the empty string.
\<close>

definition conversationFails :: "Util \<Rightarrow> ContextCondition \<Rightarrow> EvaluationContext \<Rightarrow> ConditionDeps \<Rightarrow> bool" where
  "conversationFails u c ctx deps =
     (case conversationContains c of
        None \<Rightarrow> False
      | Some pats \<Rightarrow>
          (let convo = (case conversationContext ctx of None \<Rightarrow> [] | Some xs \<Rightarrow> xs)
           in if length convo = 0 then True
              else \<not> matchesAny u pats convo (regexCache deps)))"

definition messageFails :: "Util \<Rightarrow> ContextCondition \<Rightarrow> EvaluationContext \<Rightarrow> ConditionDeps \<Rightarrow> bool" where
  "messageFails u c ctx deps =
     (case messageContains c of
        None \<Rightarrow> False
      | Some pats \<Rightarrow>
          (let content = (case messageContent ctx of None \<Rightarrow> [] | Some s \<Rightarrow> s)
           in if content = [] then True
              else \<not> matchesAny u pats [content] (regexCache deps)))"

text \<open>
  The metadata block: \<^verbatim>\<open>k in meta\<close> is read on the own keys of the metadata object,
  and an absent metadata object is the empty object.
\<close>

definition metadataFails :: "ContextCondition \<Rightarrow> EvaluationContext \<Rightarrow> bool" where
  "metadataFails c ctx =
     (case hasMetadata c of
        None \<Rightarrow> False
      | Some ks \<Rightarrow>
          (let meta = (case metadata ctx of None \<Rightarrow> Map.empty | Some m \<Rightarrow> m)
           in \<not> list_all (\<lambda>k. meta k \<noteq> None) (asArray ks)))"

definition channelFails :: "ContextCondition \<Rightarrow> EvaluationContext \<Rightarrow> bool" where
  "channelFails c ctx =
     (case cond_channel c of
        None \<Rightarrow> False
      | Some chs \<Rightarrow>
          (case channel ctx of
             None \<Rightarrow> True
           | Some ch \<Rightarrow> ch = [] \<or> ch \<notin> set (asArray chs)))"

definition sessionKeyFails :: "Util \<Rightarrow> ContextCondition \<Rightarrow> EvaluationContext \<Rightarrow> bool" where
  "sessionKeyFails u c ctx =
     (case cond_sessionKey c of
        None \<Rightarrow> False
      | Some pat \<Rightarrow>
          (if sessionKey ctx = [] then True
           else \<not> globToRegex u pat (sessionKey ctx)))"

definition evaluateContextCondition ::
  "Util \<Rightarrow> ContextCondition \<Rightarrow> EvaluationContext \<Rightarrow> ConditionDeps \<Rightarrow> bool" where
  "evaluateContextCondition u c ctx deps =
     (if conversationFails u c ctx deps then False
      else if messageFails u c ctx deps then False
      else if metadataFails c ctx then False
      else if channelFails c ctx then False
      else if sessionKeyFails u c ctx then False
      else True)"

section \<open>Time conditions (conditions/time.ts)\<close>

definition currentMinutes :: "EvaluationContext \<Rightarrow> int" where
  "currentMinutes ctx = hour (time ctx) * 60 + minute (time ctx)"

text \<open>The day-of-week filter \<^verbatim>\<open>ds && ds.length > 0 && !ds.includes(dayOfWeek)\<close>.\<close>

definition dayExcluded :: "int list option \<Rightarrow> EvaluationContext \<Rightarrow> bool" where
  "dayExcluded ds ctx =
     (case ds of
        None \<Rightarrow> False
      | Some l \<Rightarrow> length l > 0 \<and> dayOfWeek (time ctx) \<notin> set l)"

definition evaluateNamedWindow :: "Util \<Rightarrow> string \<Rightarrow> EvaluationContext \<Rightarrow> ConditionDeps \<Rightarrow> bool" where
  "evaluateNamedWindow u w ctx deps =
     (case timeWindows deps w of
        None \<Rightarrow> False
      | Some win \<Rightarrow>
          (let start = parseTimeToMinutes u (window_start win);
               endm = parseTimeToMinutes u (window_end win)
           in if start < 0 \<or> endm < 0 then False
              else if \<not> isInTimeRange u (currentMinutes ctx) start endm then False
              else if dayExcluded (window_days win) ctx then False
              else True))"

definition inlineRangeFails :: "Util \<Rightarrow> TimeCondition \<Rightarrow> EvaluationContext \<Rightarrow> bool" where
  "inlineRangeFails u c ctx =
     (case (after c, before c) of
        (Some a, Some b) \<Rightarrow>
          (let afterMin = parseTimeToMinutes u a; beforeMin = parseTimeToMinutes u b
           in afterMin < 0 \<or> beforeMin < 0
              \<or> \<not> isInTimeRange u (currentMinutes ctx) afterMin beforeMin)
      | (Some a, None) \<Rightarrow>
          (let afterMin = parseTimeToMinutes u a
           in afterMin < 0 \<or> currentMinutes ctx < afterMin)
      | (None, Some b) \<Rightarrow>
          (let beforeMin = parseTimeToMinutes u b
           in beforeMin < 0 \<or> currentMinutes ctx \<ge> beforeMin)
      | (None, None) \<Rightarrow> False)"

text \<open>
  \<^verbatim>\<open>evaluateTimeCondition\<close>. The test \<^verbatim>\<open>if (c.window)\<close> is a truthiness test: the
  named-window branch is taken for a present, non-empty name.
\<close>

definition evaluateTimeCondition ::
  "Util \<Rightarrow> TimeCondition \<Rightarrow> EvaluationContext \<Rightarrow> ConditionDeps \<Rightarrow> bool" where
  "evaluateTimeCondition u c ctx deps =
     (case window c of
        Some w \<Rightarrow>
          (if w \<noteq> [] then evaluateNamedWindow u w ctx deps
           else if inlineRangeFails u c ctx then False
           else if dayExcluded (days c) ctx then False
           else True)
      | None \<Rightarrow>
          (if inlineRangeFails u c ctx then False
           else if dayExcluded (days c) ctx then False
           else True))"

section \<open>Risk assessor (risk-assessor.ts)\<close>

definition DEFAULT_TOOL_RISK :: "(string \<times> real) list" where
  "DEFAULT_TOOL_RISK =
     [(''gateway'', 95), (''cron'', 90), (''elevated'', 95),
      (''exec'', 70), (''write'', 65), (''edit'', 60),
      (''sessions_spawn'', 45), (''sessions_send'', 50),
      (''browser'', 40), (''message'', 40),
      (''read'', 10), (''memory_search'', 5), (''memory_get'', 5),
      (''web_search'', 15), (''web_fetch'', 20), (''image'', 10), (''canvas'', 15)]"

definition lookupToolRisk :: "string option \<Rightarrow> (string \<rightharpoonup> real) \<Rightarrow> real" where
  "lookupToolRisk tn overrides =
     (case tn of
        None \<Rightarrow> 30
      | Some n \<Rightarrow>
          (if n = [] then 30
           else (case overrides n of
                   Some override \<Rightarrow> override
                 | None \<Rightarrow>
                     (case map_of DEFAULT_TOOL_RISK n of
                        Some builtin \<Rightarrow> builtin
                      | None \<Rightarrow> 30))))"

definition isOffHours :: "int \<Rightarrow> bool" where
  "isOffHours h = (h < 8 \<or> h \<ge> 23)"

definition isExternalTarget :: "EvaluationContext \<Rightarrow> bool" where
  "isExternalTarget ctx =
     (if (case messageTo ctx of None \<Rightarrow> False | Some s \<Rightarrow> s \<noteq> []) then True
      else (case toolParams ctx of
              None \<Rightarrow> False
            | Some ps \<Rightarrow>
                (if (case ps ''host'' of Some (JsString h) \<Rightarrow> h \<noteq> ''sandbox'' | _ \<Rightarrow> False)
                 then True
                 else if ps ''elevated'' = Some (JsBool True) then True
                 else False)))"

text \<open>
  Modelled from the spec: \<^verbatim>\<open>clamp\<close> of \<^verbatim>\<open>src/util.ts\<close> (not among the sources),
  which clamps a number to \<open>[min, max]\<close>.
\<close>

definition clamp :: "real \<Rightarrow> real \<Rightarrow> real \<Rightarrow> real" where
  "clamp v lo hi = max lo (min hi v)"

text \<open>\<^verbatim>\<open>Math.round\<close>: the nearest integer, a tie going up.\<close>

definition math_round :: "real \<Rightarrow> int" where
  "math_round x = \<lfloor>x + 1 / 2\<rfloor>"

definition scoreToRiskLevel :: "real \<Rightarrow> RiskLevel" where
  "scoreToRiskLevel s =
     (if s \<le> 25 then Low
      else if s \<le> 50 then Medium
      else if s \<le> 75 then High
      else Critical)"

definition toolFactor :: "Util \<Rightarrow> (string \<rightharpoonup> real) \<Rightarrow> EvaluationContext \<Rightarrow> RiskFactor" where
  "toolFactor u overrides ctx =
     (let toolRaw = lookupToolRisk (toolName ctx) overrides;
          toolValue = (toolRaw / 100) * 30
      in \<lparr> name = ''tool_sensitivity'', weight = 30, value = toolValue,
           description = ''Tool '' @ (case toolName ctx of None \<Rightarrow> ''unknown'' | Some n \<Rightarrow> n)
                         @ '' risk='' @ numberToString u toolRaw \<rparr>)"

definition timeFactor :: "EvaluationContext \<Rightarrow> RiskFactor" where
  "timeFactor ctx =
     (let timeValue = (if isOffHours (hour (time ctx)) then 15 else 0)
      in \<lparr> name = ''time_of_day'', weight = 15, value = timeValue,
           description = (if timeValue > 0 then ''Off-hours operation'' else ''Business hours'') \<rparr>)"

definition trustFactor :: "Util \<Rightarrow> EvaluationContext \<Rightarrow> RiskFactor" where
  "trustFactor u ctx =
     (let trustValue = ((100 - trust_score (trust ctx)) / 100) * 20
      in \<lparr> name = ''trust_deficit'', weight = 20, value = trustValue,
           description = ''Trust score '' @ numberToString u (trust_score (trust ctx)) @ ''/100'' \<rparr>)"

definition frequencyFactor :: "Util \<Rightarrow> EvaluationContext \<Rightarrow> FrequencyTracker \<Rightarrow> real \<Rightarrow> RiskFactor" where
  "frequencyFactor u ctx tracker now =
     (let recentCount = tracker_count tracker now 60 ScopeAgent (agentId ctx) (sessionKey ctx);
          freqValue = min (real recentCount / 20) 1 * 15
      in \<lparr> name = ''frequency'', weight = 15, value = freqValue,
           description = numberToString u (real recentCount) @ '' actions in last 60s'' \<rparr>)"

definition targetFactor :: "EvaluationContext \<Rightarrow> RiskFactor" where
  "targetFactor ctx =
     (let targetValue = (if isExternalTarget ctx then 20 else 0)
      in \<lparr> name = ''target_scope'', weight = 20, value = targetValue,
           description = (if targetValue > 0 then ''External target'' else ''Internal target'') \<rparr>)"

text \<open>
  \<^verbatim>\<open>RiskAssessor.assess\<close>; \<open>overrides\<close> is the assessor's \<^verbatim>\<open>toolRiskOverrides\<close> and
  \<open>now\<close> the wall clock that the frequency count reads.
\<close>

definition assess ::
  "Util \<Rightarrow> (string \<rightharpoonup> real) \<Rightarrow> EvaluationContext \<Rightarrow> FrequencyTracker \<Rightarrow> real \<Rightarrow> RiskAssessment" where
  "assess u overrides ctx tracker now =
     (let fs = [toolFactor u overrides ctx, timeFactor ctx, trustFactor u ctx,
                frequencyFactor u ctx tracker now, targetFactor ctx];
          total = clamp (foldl (\<lambda>sum f. sum + value f) 0 fs) 0 100;
          lvl = scoreToRiskLevel total
      in \<lparr> level = lvl, score = math_round total, factors = fs \<rparr>)"

section \<open>Policy evaluator (policy-evaluator.ts)\<close>

record EvalResult =
  action :: Action
  reason :: string
  matches :: "MatchedPolicy list"

definition matchesScope :: "Policy \<Rightarrow> EvaluationContext \<Rightarrow> bool" where
  "matchesScope p ctx =
     (if (case excludeAgents (scope p) of None \<Rightarrow> False | Some ex \<Rightarrow> agentId ctx \<in> set ex)
      then False
      else if (case channels (scope p) of
                 None \<Rightarrow> False
               | Some chs \<Rightarrow>
                   length chs > 0 \<and>
                   (case channel ctx of
                      None \<Rightarrow> True
                    | Some ch \<Rightarrow> ch = [] \<or> ch \<notin> set chs))
      then False
      else True)"

definition nonEmpty :: "'a list option \<Rightarrow> bool" where
  "nonEmpty l = (case l of None \<Rightarrow> False | Some xs \<Rightarrow> length xs > 0)"

definition policySpecificity :: "Policy \<Rightarrow> int" where
  "policySpecificity p =
     (if nonEmpty (agents (scope p)) then 10 else 0)
     + (if nonEmpty (channels (scope p)) then 5 else 0)
     + (if nonEmpty (hooks (scope p)) then 3 else 0)"

text \<open>The comparator handed to \<^verbatim>\<open>Array.prototype.sort\<close>.\<close>

definition comparePolicies :: "Policy \<Rightarrow> Policy \<Rightarrow> int" where
  "comparePolicies a b =
     (let priDiff = (case priority b of None \<Rightarrow> 0 | Some n \<Rightarrow> n)
                    - (case priority a of None \<Rightarrow> 0 | Some n \<Rightarrow> n)
      in if priDiff \<noteq> 0 then priDiff
         else policySpecificity b - policySpecificity a)"

text \<open>
  \<^verbatim>\<open>Array.prototype.sort\<close> is a stable sort; for a comparator that is a weak order,
  as this one is, its result is the one that stable insertion yields.
\<close>

fun insertStable :: "('a \<Rightarrow> 'a \<Rightarrow> int) \<Rightarrow> 'a \<Rightarrow> 'a list \<Rightarrow> 'a list" where
  "insertStable cmp x [] = [x]"
| "insertStable cmp x (y # ys) =
     (if cmp x y \<le> 0 then x # y # ys else y # insertStable cmp x ys)"

definition sortStable :: "('a \<Rightarrow> 'a \<Rightarrow> int) \<Rightarrow> 'a list \<Rightarrow> 'a list" where
  "sortStable cmp xs = foldr (insertStable cmp) xs []"

text \<open>
  Modelled from the spec: \<^verbatim>\<open>isTierAtLeast\<close> and \<^verbatim>\<open>isTierAtMost\<close> of
  \<^verbatim>\<open>src/conditions/simple.ts\<close> (not among the sources). The tier ordering is the
  five-band natural order untrusted, restricted, standard, trusted, privileged.
\<close>

fun tierRank :: "TrustTier \<Rightarrow> nat" where
  "tierRank Untrusted = 0"
| "tierRank Restricted = 1"
| "tierRank Standard = 2"
| "tierRank Trusted = 3"
| "tierRank Privileged = 4"

definition isTierAtLeast :: "TrustTier \<Rightarrow> TrustTier \<Rightarrow> bool" where
  "isTierAtLeast t bound = (tierRank t \<ge> tierRank bound)"

definition isTierAtMost :: "TrustTier \<Rightarrow> TrustTier \<Rightarrow> bool" where
  "isTierAtMost t bound = (tierRank t \<le> tierRank bound)"

text \<open>
  The registry \<^verbatim>\<open>ConditionEvaluatorMap\<close> handed to the evaluator's constructor: one
  evaluator per condition type.
\<close>

type_synonym ConditionEvaluatorMap =
  "ConditionType \<Rightarrow> Condition \<Rightarrow> EvaluationContext \<Rightarrow> ConditionDeps \<Rightarrow> bool"

text \<open>
  Modelled from the spec: \<^verbatim>\<open>evaluateConditions\<close> of \<^verbatim>\<open>src/conditions/index.ts\<close> (not
  among the sources). Each condition is evaluated by the evaluator registered for its
  type; the conditions of a rule are combined under AND, stopping at the first false.
\<close>

fun evaluateConditions ::
  "Condition list \<Rightarrow> EvaluationContext \<Rightarrow> ConditionDeps \<Rightarrow> ConditionEvaluatorMap \<Rightarrow> bool" where
  "evaluateConditions [] ctx deps evaluators = True"
| "evaluateConditions (c # cs) ctx deps evaluators =
     (if \<not> evaluators (conditionType c) c ctx deps then False
      else evaluateConditions cs ctx deps evaluators)"

text \<open>The two trust gates of a rule; either one sends the loop to the next rule.\<close>

definition minTrustFails :: "Rule \<Rightarrow> EvaluationContext \<Rightarrow> bool" where
  "minTrustFails rule ctx =
     (case minTrust rule of None \<Rightarrow> False | Some t \<Rightarrow> \<not> isTierAtLeast (tier (trust ctx)) t)"

definition maxTrustFails :: "Rule \<Rightarrow> EvaluationContext \<Rightarrow> bool" where
  "maxTrustFails rule ctx =
     (case maxTrust rule of None \<Rightarrow> False | Some t \<Rightarrow> \<not> isTierAtMost (tier (trust ctx)) t)"

text \<open>The loop over \<^verbatim>\<open>policy.rules\<close> of \<^verbatim>\<open>evaluatePolicyWithDeps\<close>.\<close>

fun rulesLoop ::
  "ConditionEvaluatorMap \<Rightarrow> string \<Rightarrow> Rule list \<Rightarrow> EvaluationContext \<Rightarrow> ConditionDeps
   \<Rightarrow> MatchedPolicy option" where
  "rulesLoop evaluators pid [] ctx policyDeps = None"
| "rulesLoop evaluators pid (rule # rest) ctx policyDeps =
     (if minTrustFails rule ctx then rulesLoop evaluators pid rest ctx policyDeps
      else if maxTrustFails rule ctx then rulesLoop evaluators pid rest ctx policyDeps
      else if evaluateConditions (conditions rule) ctx policyDeps evaluators
      then Some \<lparr> policyId = pid, ruleId = rule_id rule, matched_effect = effect rule \<rparr>
      else rulesLoop evaluators pid rest ctx policyDeps)"

definition evaluatePolicyWithDeps ::
  "ConditionEvaluatorMap \<Rightarrow> Policy \<Rightarrow> EvaluationContext \<Rightarrow> RiskAssessment \<Rightarrow> ConditionDeps
   \<Rightarrow> MatchedPolicy option" where
  "evaluatePolicyWithDeps evaluators policy ctx rsk deps =
     (let policyDeps = deps\<lparr> risk := rsk \<rparr>
      in rulesLoop evaluators (policy_id policy) (rules policy) ctx policyDeps)"

text \<open>The mutable locals of \<^verbatim>\<open>evaluateWithDeps\<close> and one turn of its loop.\<close>

record Aggregation =
  agg_matches :: "MatchedPolicy list"
  hasDeny :: bool
  denyReason :: string
  hasAudit :: bool

definition initialAggregation :: Aggregation where
  "initialAggregation = \<lparr> agg_matches = [], hasDeny = False, denyReason = [], hasAudit = False \<rparr>"

definition noteMatch :: "Aggregation \<Rightarrow> MatchedPolicy \<Rightarrow> Aggregation" where
  "noteMatch acc m =
     (let acc1 = acc\<lparr> agg_matches := agg_matches acc @ [m] \<rparr>
      in case matched_effect m of
           EffDeny r \<Rightarrow>
             (let acc2 = acc1\<lparr> hasDeny := True \<rparr>
              in if denyReason acc2 = []
                 then acc2\<lparr> denyReason := (case r of Some s \<Rightarrow> s | None \<Rightarrow> []) \<rparr>
                 else acc2)
         | EffAudit _ \<Rightarrow> acc1\<lparr> hasAudit := True \<rparr>
         | _ \<Rightarrow> acc1)"

fun policiesLoop ::
  "ConditionEvaluatorMap \<Rightarrow> Policy list \<Rightarrow> EvaluationContext \<Rightarrow> RiskAssessment \<Rightarrow> ConditionDeps
   \<Rightarrow> Aggregation \<Rightarrow> Aggregation" where
  "policiesLoop evaluators [] ctx rsk deps acc = acc"
| "policiesLoop evaluators (policy # rest) ctx rsk deps acc =
     (case evaluatePolicyWithDeps evaluators policy ctx rsk deps of
        None \<Rightarrow> policiesLoop evaluators rest ctx rsk deps acc
      | Some m \<Rightarrow> policiesLoop evaluators rest ctx rsk deps (noteMatch acc m))"

definition applicablePolicies :: "Policy list \<Rightarrow> EvaluationContext \<Rightarrow> Policy list" where
  "applicablePolicies policies ctx =
     sortStable comparePolicies (filter (\<lambda>p. matchesScope p ctx) policies)"

definition evaluateWithDeps ::
  "ConditionEvaluatorMap \<Rightarrow> EvaluationContext \<Rightarrow> Policy list \<Rightarrow> RiskAssessment \<Rightarrow> ConditionDeps
   \<Rightarrow> EvalResult" where
  "evaluateWithDeps evaluators ctx policies rsk deps =
     (let applicable = applicablePolicies policies ctx;
          acc = policiesLoop evaluators applicable ctx rsk deps initialAggregation
      in if hasDeny acc
         then \<lparr> action = Deny,
                reason = (if denyReason acc = [] then ''Denied by governance policy''
                          else denyReason acc),
                matches = agg_matches acc \<rparr>
         else if hasAudit acc
         then \<lparr> action = Allow, reason = ''Allowed with audit logging'',
                matches = agg_matches acc \<rparr>
         else \<lparr> action = Allow,
                reason = (if length (agg_matches acc) > 0 then ''Allowed by governance policy''
                          else ''No matching policies''),
                matches = agg_matches acc \<rparr>)"

section \<open>Engine orchestrator (engine.ts)\<close>

record Verdict =
  verdict_action :: Action
  verdict_reason :: string
  verdict_risk :: RiskAssessment
  matchedPolicies :: "MatchedPolicy list"
  verdict_trust :: TrustSnapshot
  evaluationUs :: real

datatype AuditVerdict =
    AuditAllow | AuditDeny | AuditEscalate | AuditEscalateApproved | AuditEscalateDenied
  | AuditEscalateTimeout | AuditErrorFallback

text \<open>The cast \<^verbatim>\<open>verdict.action as AuditVerdict\<close>.\<close>

fun asAuditVerdict :: "Action \<Rightarrow> AuditVerdict" where
  "asAuditVerdict Allow = AuditAllow"
| "asAuditVerdict Deny = AuditDeny"
| "asAuditVerdict Escalate = AuditEscalate"

record AuditContext =
  audit_hook :: PolicyHookName
  audit_agentId :: string
  audit_sessionKey :: string
  audit_channel :: "string option"
  audit_toolName :: "string option"
  audit_toolParams :: "(string \<rightharpoonup> JsValue) option"
  audit_messageContent :: "string option"
  audit_messageTo :: "string option"
  audit_crossAgent :: "JsValue option"

text \<open>
  Modelled from the spec: \<^verbatim>\<open>AuditTrail.record\<close> (\<^verbatim>\<open>src/audit-trail.ts\<close> is not among
  the sources) assembles a record from its arguments and enqueues it in an in-memory
  buffer. The trail is represented by the sequence of the calls it has received, one
  \<open>AuditCall\<close> per emitted record; sequence numbers, hashing and redaction are not
  modelled.
\<close>

record AuditCall =
  call_verdict :: AuditVerdict
  call_context :: AuditContext
  call_trust :: TrustSnapshot
  call_risk :: "RiskLevel \<times> int"
  call_matched :: "MatchedPolicy list"
  call_elapsedUs :: real

datatype FailMode = FailOpen | FailClosed

text \<open>The options of \<^verbatim>\<open>GovernanceConfig\<close> that the engine reads while evaluating.\<close>

record GovernanceConfig =
  failMode :: FailMode
  config_timeWindows :: "string \<rightharpoonup> TimeWindow"
  audit_enabled :: bool
  toolRiskOverrides :: "string \<rightharpoonup> real"
  frequencyBufferSize :: nat

record PolicyIndex =
  byHook :: "PolicyHookName \<rightharpoonup> Policy list"
  byAgent :: "string \<rightharpoonup> Policy list"
  index_regexCache :: "string \<rightharpoonup> (string \<Rightarrow> bool)"

record EvaluationStats =
  totalEvaluations :: nat
  allowCount :: nat
  denyCount :: nat
  errorCount :: nat
  avgEvaluationUs :: real

text \<open>A thrown value, by the message \<^verbatim>\<open>e instanceof Error ? e.message : String(e)\<close>.\<close>

datatype Thrown = Thrown string

fun thrownMessage :: "Thrown \<Rightarrow> string" where
  "thrownMessage (Thrown m) = m"

text \<open>
  The mutable part of a \<^verbatim>\<open>GovernanceEngine\<close>: its statistics, frequency tracker and
  policy index, the records its audit trail has been handed, and the lines its logger
  has been handed at error level.
\<close>

record EngineState =
  stats :: EvaluationStats
  engine_tracker :: FrequencyTracker
  policyIndex :: PolicyIndex
  auditTrail :: "AuditCall list"
  errorLog :: "string list"

text \<open>
  What one call of \<^verbatim>\<open>evaluate\<close> obtains from outside the sources: the two readings of
  \<^verbatim>\<open>nowUs()\<close>, the reading of \<^verbatim>\<open>Date.now()\<close> stamped on the frequency entry, the
  wall clock read by the frequency count, and the two methods of the
  \<^verbatim>\<open>CrossAgentManager\<close> (\<^verbatim>\<open>src/cross-agent.ts\<close> is not among the sources), either of
  which may throw.
\<close>

record Env =
  startUs :: real
  endUs :: real
  dateNow :: real
  countNow :: real
  enrichContext :: "EvaluationContext \<Rightarrow> Thrown + EvaluationContext"
  resolveEffectivePolicies :: "EvaluationContext \<Rightarrow> PolicyIndex \<Rightarrow> Thrown + Policy list"

text \<open>The immutable part of an engine: configuration, evaluator registry, helpers.\<close>

record Engine =
  config :: GovernanceConfig
  evaluators :: ConditionEvaluatorMap
  util :: Util

definition initialStats :: EvaluationStats where
  "initialStats =
     \<lparr> totalEvaluations = 0, allowCount = 0, denyCount = 0, errorCount = 0,
       avgEvaluationUs = 0 \<rparr>"

definition newEngineState :: "GovernanceConfig \<Rightarrow> EngineState" where
  "newEngineState cfg =
     \<lparr> stats = initialStats,
       engine_tracker = newFrequencyTracker (frequencyBufferSize cfg),
       policyIndex = \<lparr> byHook = Map.empty, byAgent = Map.empty, index_regexCache = Map.empty \<rparr>,
       auditTrail = [],
       errorLog = [] \<rparr>"

definition updateStats :: "EvaluationStats \<Rightarrow> Action \<Rightarrow> real \<Rightarrow> EvaluationStats" where
  "updateStats s a us =
     (let s1 = s\<lparr> totalEvaluations := totalEvaluations s + 1 \<rparr>;
          s2 = (if a = Allow then s1\<lparr> allowCount := allowCount s1 + 1 \<rparr>
                else s1\<lparr> denyCount := denyCount s1 + 1 \<rparr>)
      in s2\<lparr> avgEvaluationUs :=
               (avgEvaluationUs s2 * real (totalEvaluations s2 - 1) + us)
               / real (totalEvaluations s2) \<rparr>)"

definition auditContextOf :: "EvaluationContext \<Rightarrow> AuditContext" where
  "auditContextOf c =
     \<lparr> audit_hook = hook c, audit_agentId = agentId c, audit_sessionKey = sessionKey c,
       audit_channel = channel c, audit_toolName = toolName c,
       audit_toolParams = toolParams c, audit_messageContent = messageContent c,
       audit_messageTo = messageTo c, audit_crossAgent = crossAgent c \<rparr>"

definition fallbackAuditContext :: "EvaluationContext \<Rightarrow> AuditContext" where
  "fallbackAuditContext c =
     \<lparr> audit_hook = hook c, audit_agentId = agentId c, audit_sessionKey = sessionKey c,
       audit_channel = None, audit_toolName = toolName c,
       audit_toolParams = None, audit_messageContent = None,
       audit_messageTo = None, audit_crossAgent = None \<rparr>"

text \<open>
  The body of the \<^verbatim>\<open>try\<close> block of \<^verbatim>\<open>evaluate\<close>. A throw leaves with the thrown
  value and the state as mutated so far (\<open>Inl\<close>); otherwise the verdict and the final
  state are returned (\<open>Inr\<close>).
\<close>

definition evaluateTry ::
  "Engine \<Rightarrow> Env \<Rightarrow> EngineState \<Rightarrow> EvaluationContext
   \<Rightarrow> (Thrown \<times> EngineState) + (Verdict \<times> EngineState)" where
  "evaluateTry eng env st ctx =
     (case enrichContext env ctx of
        Inl e \<Rightarrow> Inl (e, st)
      | Inr enrichedCtx \<Rightarrow>
          (let st1 = st\<lparr> engine_tracker :=
                          tracker_record (engine_tracker st)
                            \<lparr> entry_timestamp = dateNow env,
                              entry_agentId = agentId enrichedCtx,
                              entry_sessionKey = sessionKey enrichedCtx,
                              entry_toolName = toolName enrichedCtx \<rparr> \<rparr>;
               rsk = assess (util eng) (toolRiskOverrides (config eng)) enrichedCtx
                       (engine_tracker st1) (countNow env)
           in case resolveEffectivePolicies env enrichedCtx (policyIndex st1) of
                Inl e \<Rightarrow> Inl (e, st1)
              | Inr effectivePolicies \<Rightarrow>
                  (let deps = \<lparr> regexCache = index_regexCache (policyIndex st1),
                                timeWindows = config_timeWindows (config eng),
                                risk = rsk,
                                frequencyTracker = engine_tracker st1 \<rparr>;
                       evalResult = evaluateWithDeps (evaluators eng) enrichedCtx
                                      effectivePolicies rsk deps;
                       elapsedUs = endUs env - startUs env;
                       verdict = \<lparr> verdict_action = action evalResult,
                                   verdict_reason = reason evalResult,
                                   verdict_risk = rsk,
                                   matchedPolicies = matches evalResult,
                                   verdict_trust = trust enrichedCtx,
                                   evaluationUs = elapsedUs \<rparr>;
                       st2 = (if audit_enabled (config eng)
                              then st1\<lparr> auditTrail := auditTrail st1 @
                                     [\<lparr> call_verdict = asAuditVerdict (verdict_action verdict),
                                        call_context = auditContextOf enrichedCtx,
                                        call_trust = verdict_trust verdict,
                                        call_risk = (level rsk, score rsk),
                                        call_matched = matchedPolicies verdict,
                                        call_elapsedUs = elapsedUs \<rparr>] \<rparr>
                              else st1);
                       st3 = st2\<lparr> stats := updateStats (stats st2) (verdict_action verdict)
                                                elapsedUs \<rparr>
                   in Inr (verdict, st3))))"

text \<open>The \<^verbatim>\<open>catch\<close> block of \<^verbatim>\<open>evaluate\<close>.\<close>

definition evaluateCatch ::
  "Engine \<Rightarrow> Env \<Rightarrow> EngineState \<Rightarrow> EvaluationContext \<Rightarrow> Thrown \<Rightarrow> Verdict \<times> EngineState" where
  "evaluateCatch eng env st ctx e =
     (let elapsedUs = endUs env - startUs env;
          st1 = st\<lparr> stats := (stats st)\<lparr> errorCount := errorCount (stats st) + 1 \<rparr> \<rparr>;
          st2 = st1\<lparr> errorLog := errorLog st1 @
                       [''[governance] Evaluation error: '' @ thrownMessage e] \<rparr>;
          fallback = (if failMode (config eng) = FailClosed then Deny else Allow);
          st3 = (if audit_enabled (config eng)
                 then st2\<lparr> auditTrail := auditTrail st2 @
                        [\<lparr> call_verdict = AuditErrorFallback,
                           call_context = fallbackAuditContext ctx,
                           call_trust = trust ctx,
                           call_risk = (Critical, 100),
                           call_matched = [],
                           call_elapsedUs = elapsedUs \<rparr>] \<rparr>
                 else st2)
      in (\<lparr> verdict_action = fallback,
            verdict_reason = (if fallback = Deny then ''Governance engine error (fail-closed)''
                              else ''Governance engine error (fail-open)''),
            verdict_risk = \<lparr> level = Critical, score = 100, factors = [] \<rparr>,
            matchedPolicies = [],
            verdict_trust = trust ctx,
            evaluationUs = elapsedUs \<rparr>, st3))"

definition evaluate ::
  "Engine \<Rightarrow> Env \<Rightarrow> EngineState \<Rightarrow> EvaluationContext \<Rightarrow> Verdict \<times> EngineState" where
  "evaluate eng env st ctx =
     (case evaluateTry eng env st ctx of
        Inr r \<Rightarrow> r
      | Inl (e, st') \<Rightarrow> evaluateCatch eng env st' ctx e)"

text \<open>A sequence of calls of \<^verbatim>\<open>evaluate\<close> on one engine, each with its own environment.\<close>

fun evaluateAll :: "Engine \<Rightarrow> EngineState \<Rightarrow> (Env \<times> EvaluationContext) list \<Rightarrow> EngineState" where
  "evaluateAll eng st [] = st"
| "evaluateAll eng st ((env, ctx) # calls) = evaluateAll eng (snd (evaluate eng env st ctx)) calls"

section \<open>Notions used to state the properties\<close>

text \<open>
  The contributions of an evaluation: for each applicable policy in sorted order, the
  match it produces, if any.
\<close>

definition contributions ::
  "ConditionEvaluatorMap \<Rightarrow> EvaluationContext \<Rightarrow> Policy list \<Rightarrow> RiskAssessment \<Rightarrow> ConditionDeps
   \<Rightarrow> MatchedPolicy list" where
  "contributions evs ctx policies rsk deps =
     List.map_filter (\<lambda>p. evaluatePolicyWithDeps evs p ctx rsk deps)
       (applicablePolicies policies ctx)"

text \<open>The reasons of the denying contributions, in order; a missing reason is empty.\<close>

fun denyReasons :: "MatchedPolicy list \<Rightarrow> string list" where
  "denyReasons [] = []"
| "denyReasons (m # ms) =
     (case matched_effect m of
        EffDeny r \<Rightarrow> (case r of Some s \<Rightarrow> s | None \<Rightarrow> []) # denyReasons ms
      | _ \<Rightarrow> denyReasons ms)"

text \<open>
  The reason that "the first denying contribution, or a default string when that
  reason is empty" describes.
\<close>

definition firstDenyReasonOrDefault :: "MatchedPolicy list \<Rightarrow> string" where
  "firstDenyReasonOrDefault ms =
     (case denyReasons ms of
        [] \<Rightarrow> ''Denied by governance policy''
      | r # _ \<Rightarrow> (if r = [] then ''Denied by governance policy'' else r))"

text \<open>The first non-empty reason among the denying contributions, or the default.\<close>

definition firstNonEmptyDenyReasonOrDefault :: "MatchedPolicy list \<Rightarrow> string" where
  "firstNonEmptyDenyReasonOrDefault ms =
     (case List.find (\<lambda>r. r \<noteq> []) (denyReasons ms) of
        None \<Rightarrow> ''Denied by governance policy''
      | Some r \<Rightarrow> r)"

definition effectivePriority :: "Policy \<Rightarrow> int" where
  "effectivePriority p = (case priority p of None \<Rightarrow> 0 | Some n \<Rightarrow> n)"

text \<open>
  A policy is out of scope for a context when its exclude list contains the context's
  agent id, or its non-empty channel list does not contain the context's channel.
\<close>

definition outOfScope :: "Policy \<Rightarrow> EvaluationContext \<Rightarrow> bool" where
  "outOfScope p ctx =
     ((case excludeAgents (scope p) of None \<Rightarrow> False | Some ex \<Rightarrow> agentId ctx \<in> set ex)
      \<or> (case channels (scope p) of
            None \<Rightarrow> False
          | Some chs \<Rightarrow> chs \<noteq> [] \<and>
              (case channel ctx of None \<Rightarrow> True | Some ch \<Rightarrow> ch = [] \<or> ch \<notin> set chs)))"

text \<open>
  A rule is satisfied when its trust gates permit the context's tier under the
  five-band order and all its conditions evaluate true.
\<close>

definition gatesPermit :: "Rule \<Rightarrow> EvaluationContext \<Rightarrow> bool" where
  "gatesPermit r ctx =
     ((case minTrust r of None \<Rightarrow> True | Some t \<Rightarrow> tierRank t \<le> tierRank (tier (trust ctx)))
      \<and> (case maxTrust r of None \<Rightarrow> True | Some t \<Rightarrow> tierRank (tier (trust ctx)) \<le> tierRank t))"

definition ruleSatisfied ::
  "ConditionEvaluatorMap \<Rightarrow> EvaluationContext \<Rightarrow> ConditionDeps \<Rightarrow> Rule \<Rightarrow> bool" where
  "ruleSatisfied evs ctx deps r =
     (gatesPermit r ctx \<and> list_all (\<lambda>c. evs (conditionType c) c ctx deps) (conditions r))"

definition matchOf :: "Policy \<Rightarrow> Rule \<Rightarrow> MatchedPolicy" where
  "matchOf p r = \<lparr> policyId = policy_id p, ruleId = rule_id r, matched_effect = effect r \<rparr>"

text \<open>The entries of a tracker, and the two tallies that the frequency factor may use.\<close>

definition entries :: "FrequencyTracker \<Rightarrow> FrequencyEntry list" where
  "entries t = List.map_filter (\<lambda>slot. slot) (buffer t)"

definition recentByAgent :: "FrequencyTracker \<Rightarrow> real \<Rightarrow> string \<Rightarrow> nat" where
  "recentByAgent t now aid =
     length (filter (\<lambda>e. now - 60000 \<le> entry_timestamp e \<and> entry_agentId e = aid) (entries t))"

definition recentByAgentAndSession :: "FrequencyTracker \<Rightarrow> real \<Rightarrow> string \<Rightarrow> string \<Rightarrow> nat" where
  "recentByAgentAndSession t now aid skey =
     length (filter (\<lambda>e. now - 60000 \<le> entry_timestamp e \<and> entry_agentId e = aid
                          \<and> entry_sessionKey e = skey) (entries t))"



text \<open>The two outcome counters account for every counted evaluation.\<close>

definition statsBalanced :: "EvaluationStats \<Rightarrow> bool" where
  "statsBalanced s = (totalEvaluations s = allowCount s + denyCount s)"

section \<open>Concrete inputs\<close>

definition exampleUtil :: Util where
  "exampleUtil =
     \<lparr> compileRegExp = (\<lambda>p. None),
       globToRegex = (\<lambda>p s. p = s),
       parseTimeToMinutes = (\<lambda>s. - 1),
       isInTimeRange = (\<lambda>n a b. a \<le> n \<and> n < b),
       numberToString = (\<lambda>r. ''n'') \<rparr>"

definition exampleContext :: EvaluationContext where
  "exampleContext =
     \<lparr> hook = BeforeToolCall, agentId = ''main'', sessionKey = ''agent:main'',
       channel = None, toolName = Some ''read'', toolParams = None,
       messageContent = None, messageTo = None, timestamp = 0,
       time = \<lparr> hour = 12, minute = 0, dayOfWeek = 1, date = ''2026-02-17'',
                timezone = ''UTC'' \<rparr>,
       trust = \<lparr> trust_score = 0, tier = Untrusted \<rparr>,
       conversationContext = None, metadata = None, crossAgent = None \<rparr>"

definition exampleRisk :: RiskAssessment where
  "exampleRisk = \<lparr> level = Low, score = 0, factors = [] \<rparr>"

definition exampleDeps :: ConditionDeps where
  "exampleDeps =
     \<lparr> regexCache = Map.empty, timeWindows = Map.empty, risk = exampleRisk,
       frequencyTracker = newFrequencyTracker 4 \<rparr>"

text \<open>A registry that knows the two evaluators of the sources; the others never match.\<close>

definition exampleEvaluators :: ConditionEvaluatorMap where
  "exampleEvaluators ty c =
     (case c of
        ContextCond cc \<Rightarrow> evaluateContextCondition exampleUtil cc
      | TimeCond tc \<Rightarrow> evaluateTimeCondition exampleUtil tc
      | _ \<Rightarrow> (\<lambda>ctx deps. False))"

definition unscoped :: PolicyScope where
  "unscoped = \<lparr> agents = None, excludeAgents = None, channels = None, hooks = None \<rparr>"

definition ruleWith :: "string \<Rightarrow> Condition list \<Rightarrow> RuleEffect \<Rightarrow> Rule" where
  "ruleWith rid cs eff =
     \<lparr> rule_id = rid, rule_description = None, conditions = cs, effect = eff,
       minTrust = None, maxTrust = None \<rparr>"

definition policyWith :: "string \<Rightarrow> Rule list \<Rightarrow> Policy" where
  "policyWith pid rs =
     \<lparr> policy_id = pid, policy_name = pid, version = ''1.0.0'', policy_description = None,
       scope = unscoped, rules = rs, enabled = None, priority = None \<rparr>"





definition denyRule :: "string \<Rightarrow> string \<Rightarrow> Rule" where
  "denyRule rid why = ruleWith rid [] (EffDeny (Some why))"

definition gatedRule :: Rule where
  "gatedRule = (ruleWith ''for-trusted'' [] EffAllow)\<lparr> minTrust := Some Trusted \<rparr>"

definition gatedPolicy :: Policy where
  "gatedPolicy = policyWith ''gated'' [gatedRule, denyRule ''otherwise'' ''not trusted'']"

definition silentDenyPolicy :: Policy where
  "silentDenyPolicy = policyWith ''a'' [denyRule ''r1'' []]"

definition noShellPolicy :: Policy where
  "noShellPolicy = policyWith ''b'' [denyRule ''r2'' ''no shell'']"

definition escalatePolicy :: Policy where
  "escalatePolicy =
     policyWith ''safeguard'' [ruleWith ''ask'' [] (EffEscalate Human (Some 300) (Some Deny))]"

definition disabledPolicy :: Policy where
  "disabledPolicy = (policyWith ''off'' [denyRule ''blocked'' ''switched off''])\<lparr> enabled := Some False \<rparr>"

definition excludingPolicy :: Policy where
  "excludingPolicy =
     (policyWith ''not-main'' [denyRule ''r'' ''others only''])
       \<lparr> scope := unscoped\<lparr> excludeAgents := Some [''main''] \<rparr> \<rparr>"

definition otherSessionEntry :: FrequencyEntry where
  "otherSessionEntry =
     \<lparr> entry_timestamp = 0, entry_agentId = ''main'',
       entry_sessionKey = ''agent:main:subagent:x'', entry_toolName = Some ''read'' \<rparr>"

definition busyTracker :: FrequencyTracker where
  "busyTracker =
     \<lparr> buffer = [Some otherSessionEntry, Some otherSessionEntry, Some otherSessionEntry, None],
       head = 3 \<rparr>"

definition exampleConfig :: GovernanceConfig where
  "exampleConfig =
     \<lparr> failMode = FailClosed, config_timeWindows = Map.empty, audit_enabled = True,
       toolRiskOverrides = Map.empty, frequencyBufferSize = 4 \<rparr>"

definition exampleEngine :: Engine where
  "exampleEngine = \<lparr> config = exampleConfig, evaluators = exampleEvaluators, util = exampleUtil \<rparr>"

definition quietEnv :: Env where
  "quietEnv =
     \<lparr> startUs = 0, endUs = 10, dateNow = 1000, countNow = 1000,
       enrichContext = (\<lambda>c. Inr c),
       resolveEffectivePolicies = (\<lambda>c idx. Inr [noShellPolicy]) \<rparr>"

definition throwingEnv :: Env where
  "throwingEnv = quietEnv\<lparr> resolveEffectivePolicies := (\<lambda>c idx. Inl (Thrown ''boom'')) \<rparr>"

section \<open>Properties\<close>

subsection \<open>Context conditions\<close>





subsection \<open>Auxiliary facts about the policy evaluator\<close>


lemma evaluateConditions_list_all:
  "evaluateConditions cs ctx deps evs = list_all (\<lambda>c. evs (conditionType c) c ctx deps) cs"
  by (induction cs) auto

lemma gatesPermit_iff:
  "gatesPermit r ctx = (\<not> minTrustFails r ctx \<and> \<not> maxTrustFails r ctx)"
  by (auto simp: gatesPermit_def minTrustFails_def maxTrustFails_def isTierAtLeast_def
      isTierAtMost_def split: option.splits)

lemma rulesLoop_find:
  "rulesLoop evs pid rs ctx deps =
     map_option (\<lambda>r. \<lparr> policyId = pid, ruleId = rule_id r, matched_effect = effect r \<rparr>)
       (List.find (ruleSatisfied evs ctx deps) rs)"
  by (induction rs)
     (auto simp: ruleSatisfied_def gatesPermit_iff evaluateConditions_list_all)

lemma policiesLoop_foldl:
  "policiesLoop evs ps ctx rsk deps acc =
     foldl noteMatch acc (List.map_filter (\<lambda>p. evaluatePolicyWithDeps evs p ctx rsk deps) ps)"
  by (induction ps arbitrary: acc) (auto split: option.splits)

lemma noteMatch_matches: "agg_matches (noteMatch acc m) = agg_matches acc @ [m]"
  by (simp add: noteMatch_def Let_def split: RuleEffect.splits)

lemma foldl_noteMatch_matches: "agg_matches (foldl noteMatch acc ms) = agg_matches acc @ ms"
  by (induction ms arbitrary: acc) (simp_all add: noteMatch_matches)

lemma foldl_noteMatch_hasDeny:
  "hasDeny (foldl noteMatch acc ms) = (hasDeny acc \<or> denyReasons ms \<noteq> [])"
  by (induction ms arbitrary: acc) (auto simp: noteMatch_def Let_def split: RuleEffect.splits)

lemma foldl_noteMatch_denyReason:
  "denyReason (foldl noteMatch acc ms) =
     (if denyReason acc \<noteq> [] then denyReason acc
      else (case List.find (\<lambda>r. r \<noteq> []) (denyReasons ms) of None \<Rightarrow> [] | Some r \<Rightarrow> r))"
  by (induction ms arbitrary: acc)
     (auto simp: noteMatch_def Let_def split: RuleEffect.splits option.splits)

lemma evaluateWithDeps_matches:
  "matches (evaluateWithDeps evs ctx ps rsk deps) = contributions evs ctx ps rsk deps"
  by (simp add: evaluateWithDeps_def Let_def contributions_def policiesLoop_foldl
      foldl_noteMatch_matches initialAggregation_def)

lemma evaluateWithDeps_action:
  "action (evaluateWithDeps evs ctx ps rsk deps) =
     (if denyReasons (contributions evs ctx ps rsk deps) \<noteq> [] then Deny else Allow)"
  by (simp add: evaluateWithDeps_def Let_def contributions_def policiesLoop_foldl
      foldl_noteMatch_hasDeny initialAggregation_def)

lemma find_Some_holds: "List.find P xs = Some x \<Longrightarrow> P x"
  by (induction xs) (auto split: if_splits)

lemma evaluateWithDeps_deny_reason:
  "denyReasons (contributions evs ctx ps rsk deps) \<noteq> [] \<Longrightarrow>
   reason (evaluateWithDeps evs ctx ps rsk deps) =
     firstNonEmptyDenyReasonOrDefault (contributions evs ctx ps rsk deps)"
  by (auto simp: evaluateWithDeps_def Let_def contributions_def policiesLoop_foldl
      foldl_noteMatch_hasDeny foldl_noteMatch_denyReason initialAggregation_def
      firstNonEmptyDenyReasonOrDefault_def split: option.splits dest: find_Some_holds)


lemma comparePolicies_total: "comparePolicies a b \<le> 0 \<or> comparePolicies b a \<le> 0"
  by (auto simp: comparePolicies_def Let_def)

lemma comparePolicies_trans:
  "comparePolicies a b \<le> 0 \<Longrightarrow> comparePolicies b c \<le> 0 \<Longrightarrow> comparePolicies a c \<le> 0"
  by (auto simp: comparePolicies_def Let_def split: if_splits)

lemma comparePolicies_priority:
  "comparePolicies a b \<le> 0 \<Longrightarrow> effectivePriority b \<le> effectivePriority a"
  by (auto simp: comparePolicies_def Let_def effectivePriority_def split: if_splits)

lemma set_insertStable: "set (insertStable cmp x ys) = insert x (set ys)"
  by (induction ys) auto

lemma set_sortStable: "set (sortStable cmp xs) = set xs"
  by (induction xs) (auto simp: sortStable_def set_insertStable)

lemma sorted_insertStable:
  "sorted_wrt (\<lambda>a b. comparePolicies a b \<le> 0) ys \<Longrightarrow>
   sorted_wrt (\<lambda>a b. comparePolicies a b \<le> 0) (insertStable comparePolicies x ys)"
proof (induction ys)
  case Nil
  then show ?case by simp
next
  case (Cons y ys)
  show ?case
  proof (cases "comparePolicies x y \<le> 0")
    case True
    then show ?thesis
      using Cons.prems comparePolicies_trans by auto
  next
    case False
    then have "comparePolicies y x \<le> 0"
      using comparePolicies_total by blast
    then show ?thesis
      using False Cons by (auto simp: set_insertStable)
  qed
qed

lemma sorted_sortStable:
  "sorted_wrt (\<lambda>a b. comparePolicies a b \<le> 0) (sortStable comparePolicies xs)"
proof (induction xs)
  case Nil
  then show ?case by (simp add: sortStable_def)
next
  case (Cons x xs)
  then show ?case
    using sorted_insertStable [of "sortStable comparePolicies xs" x]
    by (simp add: sortStable_def)
qed

lemma applicablePolicies_priority_order:
  "sorted_wrt (\<lambda>a b. effectivePriority b \<le> effectivePriority a) (applicablePolicies ps ctx)"
  unfolding applicablePolicies_def
  by (rule sorted_wrt_mono_rel [OF _ sorted_sortStable]) (simp add: comparePolicies_priority)

lemma set_applicablePolicies:
  "set (applicablePolicies ps ctx) = {p \<in> set ps. matchesScope p ctx}"
  by (auto simp: applicablePolicies_def set_sortStable)

lemma matchesScope_iff: "matchesScope p ctx = (\<not> outOfScope p ctx)"
  by (auto simp: matchesScope_def outOfScope_def split: option.splits)

lemma denyReasons_nonempty_iff:
  "denyReasons ms \<noteq> [] \<longleftrightarrow> (\<exists>m \<in> set ms. \<exists>r. matched_effect m = EffDeny r)"
  by (induction ms) (auto split: RuleEffect.splits)

subsection \<open>Policy evaluator\<close>

text \<open>
  C5. For every policy, the policy's contribution is exactly the match of the first
  rule in declared order that is satisfied: its trust gates (minTrust and maxTrust,
  compared under the five-band tier order) permit the context's tier and all its
  conditions evaluate true under AND, with the risk assessment of the call placed in
  the dependency bag. A rule that fails a trust gate is skipped and the later rules
  are still considered. A policy contributes at most one effect: the matched list
  holds, for the applicable policies in order, the contribution of each policy that
  has one.
\<close>

theorem policy_contribution_first_satisfied_rule:
  "evaluatePolicyWithDeps evs policy ctx rsk deps
     = map_option (matchOf policy)
         (List.find (ruleSatisfied evs ctx (deps\<lparr> risk := rsk \<rparr>)) (rules policy))
   \<and> (\<not> gatesPermit r ctx \<longrightarrow>
        evaluatePolicyWithDeps evs (policy\<lparr> rules := r # rest \<rparr>) ctx rsk deps
          = evaluatePolicyWithDeps evs (policy\<lparr> rules := rest \<rparr>) ctx rsk deps)
   \<and> matches (evaluateWithDeps evs ctx ps rsk deps)
       = List.map_filter (\<lambda>p. evaluatePolicyWithDeps evs p ctx rsk deps)
           (applicablePolicies ps ctx)
   \<and> length (matches (evaluateWithDeps evs ctx ps rsk deps))
       \<le> length (applicablePolicies ps ctx)"
proof -
  have first: "evaluatePolicyWithDeps evs q ctx rsk deps
     = map_option (matchOf q)
         (List.find (ruleSatisfied evs ctx (deps\<lparr> risk := rsk \<rparr>)) (rules q))" for q
    by (simp add: evaluatePolicyWithDeps_def rulesLoop_find matchOf_def [abs_def])
  have skip: "evaluatePolicyWithDeps evs (policy\<lparr> rules := r # rest \<rparr>) ctx rsk deps
          = evaluatePolicyWithDeps evs (policy\<lparr> rules := rest \<rparr>) ctx rsk deps"
    if "\<not> gatesPermit r ctx"
    using that by (simp add: first ruleSatisfied_def matchOf_def [abs_def])
  have all: "matches (evaluateWithDeps evs ctx ps rsk deps)
       = List.map_filter (\<lambda>p. evaluatePolicyWithDeps evs p ctx rsk deps)
           (applicablePolicies ps ctx)"
    by (simp add: evaluateWithDeps_matches contributions_def)
  have "length (List.map_filter f xs) \<le> length xs" for f :: "Policy \<Rightarrow> MatchedPolicy option" and xs
    by (induction xs) (auto split: option.splits)
  then have atmost: "length (matches (evaluateWithDeps evs ctx ps rsk deps))
       \<le> length (applicablePolicies ps ctx)"
    by (simp add: all)
  show ?thesis
    using first [of policy] skip all atmost by blast
qed

theorem policy_contribution_first_satisfied_rule_witness:
  "\<not> gatesPermit gatedRule exampleContext
   \<and> evaluatePolicyWithDeps exampleEvaluators gatedPolicy exampleContext exampleRisk exampleDeps
       = Some \<lparr> policyId = ''gated'', ruleId = ''otherwise'',
                matched_effect = EffDeny (Some ''not trusted'') \<rparr>
   \<and> matches (evaluateWithDeps exampleEvaluators exampleContext [gatedPolicy] exampleRisk exampleDeps)
       = [\<lparr> policyId = ''gated'', ruleId = ''otherwise'',
            matched_effect = EffDeny (Some ''not trusted'') \<rparr>]"
  using policy_contribution_first_satisfied_rule [where evs = exampleEvaluators
      and policy = gatedPolicy and ctx = exampleContext and rsk = exampleRisk
      and deps = exampleDeps and r = gatedRule and rest = "[denyRule ''otherwise'' ''not trusted'']"
      and ps = "[gatedPolicy]"]
  by (simp add: gatedPolicy_def gatedRule_def denyRule_def policyWith_def ruleWith_def
      gatesPermit_def ruleSatisfied_def matchOf_def exampleContext_def
      applicablePolicies_def sortStable_def matchesScope_def unscoped_def)

text \<open>Definitions unfolded when an evaluation is run on a concrete input.\<close>

lemmas fixture_defs = silentDenyPolicy_def noShellPolicy_def escalatePolicy_def disabledPolicy_def
  excludingPolicy_def denyRule_def policyWith_def ruleWith_def unscoped_def

lemmas run_defs = evaluateWithDeps_def applicablePolicies_def sortStable_def matchesScope_def
  comparePolicies_def policySpecificity_def nonEmpty_def evaluatePolicyWithDeps_def
  initialAggregation_def noteMatch_def contributions_def minTrustFails_def maxTrustFails_def

text \<open>
  C1 (as amended). If at least one policy contributes a deny effect, the verdict of the
  policy evaluator has action deny, whatever allow, audit or escalate contributions
  stand beside it. Its reason is the first non-empty reason among the denying
  contributions, taken in the order of the applicable policies, which is sorted by
  descending priority; it is the default string when every denying contribution has an
  empty reason. The matched list holds all contributions.
\<close>

theorem deny_wins:
  assumes "\<exists>m \<in> set (contributions evs ctx ps rsk deps). \<exists>r. matched_effect m = EffDeny r"
  shows "action (evaluateWithDeps evs ctx ps rsk deps) = Deny
         \<and> reason (evaluateWithDeps evs ctx ps rsk deps)
             = firstNonEmptyDenyReasonOrDefault (contributions evs ctx ps rsk deps)
         \<and> matches (evaluateWithDeps evs ctx ps rsk deps) = contributions evs ctx ps rsk deps
         \<and> sorted_wrt (\<lambda>a b. effectivePriority b \<le> effectivePriority a)
             (applicablePolicies ps ctx)"
proof -
  from assms have some: "denyReasons (contributions evs ctx ps rsk deps) \<noteq> []"
    by (simp add: denyReasons_nonempty_iff)
  then have "action (evaluateWithDeps evs ctx ps rsk deps) = Deny"
    by (simp add: evaluateWithDeps_action)
  moreover have "reason (evaluateWithDeps evs ctx ps rsk deps)
             = firstNonEmptyDenyReasonOrDefault (contributions evs ctx ps rsk deps)"
    using some by (rule evaluateWithDeps_deny_reason)
  ultimately show ?thesis
    by (simp add: evaluateWithDeps_matches applicablePolicies_priority_order)
qed

theorem deny_wins_witness:
  "action (evaluateWithDeps exampleEvaluators exampleContext
             [escalatePolicy, silentDenyPolicy, noShellPolicy] exampleRisk exampleDeps) = Deny
   \<and> reason (evaluateWithDeps exampleEvaluators exampleContext
             [escalatePolicy, silentDenyPolicy, noShellPolicy] exampleRisk exampleDeps) = ''no shell''
   \<and> length (matches (evaluateWithDeps exampleEvaluators exampleContext
             [escalatePolicy, silentDenyPolicy, noShellPolicy] exampleRisk exampleDeps)) = 3"
proof -
  have c: "contributions exampleEvaluators exampleContext
             [escalatePolicy, silentDenyPolicy, noShellPolicy] exampleRisk exampleDeps
     = [\<lparr> policyId = ''safeguard'', ruleId = ''ask'',
          matched_effect = EffEscalate Human (Some 300) (Some Deny) \<rparr>,
        \<lparr> policyId = ''a'', ruleId = ''r1'', matched_effect = EffDeny (Some []) \<rparr>,
        \<lparr> policyId = ''b'', ruleId = ''r2'', matched_effect = EffDeny (Some ''no shell'') \<rparr>]"
    by (simp add: fixture_defs run_defs)
  have h: "\<exists>m \<in> set (contributions exampleEvaluators exampleContext
             [escalatePolicy, silentDenyPolicy, noShellPolicy] exampleRisk exampleDeps).
             \<exists>r. matched_effect m = EffDeny r"
    by (simp add: c)
  show ?thesis
    using deny_wins [OF h] by (simp add: c firstNonEmptyDenyReasonOrDefault_def)
qed

text \<open>
  The reason is not always that of the first denying contribution: when the first deny
  has an empty reason and a later deny has one, the later reason is returned, not the
  default string.
\<close>

theorem deny_reason_counterexample:
  "contributions exampleEvaluators exampleContext [silentDenyPolicy, noShellPolicy]
       exampleRisk exampleDeps
     = [\<lparr> policyId = ''a'', ruleId = ''r1'', matched_effect = EffDeny (Some []) \<rparr>,
        \<lparr> policyId = ''b'', ruleId = ''r2'', matched_effect = EffDeny (Some ''no shell'') \<rparr>]
   \<and> reason (evaluateWithDeps exampleEvaluators exampleContext [silentDenyPolicy, noShellPolicy]
         exampleRisk exampleDeps) = ''no shell''
   \<and> firstDenyReasonOrDefault
        (contributions exampleEvaluators exampleContext [silentDenyPolicy, noShellPolicy]
           exampleRisk exampleDeps) = ''Denied by governance policy''
   \<and> reason (evaluateWithDeps exampleEvaluators exampleContext [silentDenyPolicy, noShellPolicy]
         exampleRisk exampleDeps)
       \<noteq> firstDenyReasonOrDefault
           (contributions exampleEvaluators exampleContext [silentDenyPolicy, noShellPolicy]
              exampleRisk exampleDeps)"
  by (simp add: fixture_defs run_defs firstDenyReasonOrDefault_def)

text \<open>
  C2 (as amended). When no policy contributes a deny effect, the verdict of the policy
  evaluator has action allow, also when some policy contributes an escalate effect:
  the escalation, with its target and timeout, is carried in the matched list only. The
  action of the evaluator's result is never escalate; it ranges over allow and deny.
\<close>

theorem no_deny_gives_allow:
  "action (evaluateWithDeps evs ctx ps rsk deps) \<noteq> Escalate
   \<and> ((\<forall>m \<in> set (contributions evs ctx ps rsk deps). \<forall>r. matched_effect m \<noteq> EffDeny r)
        \<longrightarrow> action (evaluateWithDeps evs ctx ps rsk deps) = Allow)
   \<and> matches (evaluateWithDeps evs ctx ps rsk deps) = contributions evs ctx ps rsk deps"
proof -
  have "denyReasons (contributions evs ctx ps rsk deps) = []"
    if "\<forall>m \<in> set (contributions evs ctx ps rsk deps). \<forall>r. matched_effect m \<noteq> EffDeny r"
    using that denyReasons_nonempty_iff [of "contributions evs ctx ps rsk deps"] by blast
  then show ?thesis
    by (auto simp: evaluateWithDeps_action evaluateWithDeps_matches)
qed

theorem no_deny_gives_allow_witness:
  "denyReasons (contributions exampleEvaluators exampleContext [escalatePolicy]
       exampleRisk exampleDeps) = []
   \<and> action (evaluateWithDeps exampleEvaluators exampleContext [escalatePolicy]
         exampleRisk exampleDeps) = Allow
   \<and> matches (evaluateWithDeps exampleEvaluators exampleContext [escalatePolicy]
         exampleRisk exampleDeps)
       = [\<lparr> policyId = ''safeguard'', ruleId = ''ask'',
            matched_effect = EffEscalate Human (Some 300) (Some Deny) \<rparr>]"
proof -
  have c: "contributions exampleEvaluators exampleContext [escalatePolicy] exampleRisk exampleDeps
     = [\<lparr> policyId = ''safeguard'', ruleId = ''ask'',
          matched_effect = EffEscalate Human (Some 300) (Some Deny) \<rparr>]"
    by (simp add: fixture_defs run_defs)
  show ?thesis
    using no_deny_gives_allow [of exampleEvaluators exampleContext "[escalatePolicy]"
        exampleRisk exampleDeps]
    by (simp add: c)
qed

text \<open>
  A single escalate contribution, with no deny beside it, yields the action allow.
\<close>

theorem escalate_counterexample:
  "contributions exampleEvaluators exampleContext [escalatePolicy] exampleRisk exampleDeps
     = [\<lparr> policyId = ''safeguard'', ruleId = ''ask'',
          matched_effect = EffEscalate Human (Some 300) (Some Deny) \<rparr>]
   \<and> action (evaluateWithDeps exampleEvaluators exampleContext [escalatePolicy]
         exampleRisk exampleDeps) = Allow
   \<and> action (evaluateWithDeps exampleEvaluators exampleContext [escalatePolicy]
         exampleRisk exampleDeps) \<noteq> Escalate"
  by (simp add: fixture_defs run_defs)

text \<open>
  C3 (as amended). The policy list is filtered by scope before any rule is evaluated:
  the applicable policies are exactly those that are not out of scope, and a policy
  whose excludeAgents list contains the context's agent id, or whose non-empty channel
  list does not contain the context's channel, never contributes to the verdict:
  leaving such policies out of the list does not change the result. The scope filter
  of the evaluator does not consult the enabled flag.
\<close>

theorem out_of_scope_policies_never_contribute:
  "set (applicablePolicies ps ctx) = {p \<in> set ps. \<not> outOfScope p ctx}
   \<and> evaluateWithDeps evs ctx ps rsk deps
       = evaluateWithDeps evs ctx (filter (\<lambda>p. \<not> outOfScope p ctx) ps) rsk deps
   \<and> matchesScope (p\<lparr> enabled := e \<rparr>) ctx = matchesScope p ctx"
proof -
  have same: "applicablePolicies (filter (\<lambda>p. \<not> outOfScope p ctx) ps) ctx
      = applicablePolicies ps ctx"
    by (simp add: applicablePolicies_def matchesScope_iff)
  have "evaluateWithDeps evs ctx ps rsk deps
       = evaluateWithDeps evs ctx (filter (\<lambda>p. \<not> outOfScope p ctx) ps) rsk deps"
    unfolding evaluateWithDeps_def same ..
  moreover have "matchesScope (p\<lparr> enabled := e \<rparr>) ctx = matchesScope p ctx"
    by (simp add: matchesScope_def)
  ultimately show ?thesis
    by (simp add: set_applicablePolicies matchesScope_iff)
qed

theorem out_of_scope_policies_never_contribute_witness:
  "outOfScope excludingPolicy exampleContext
   \<and> \<not> outOfScope noShellPolicy exampleContext
   \<and> evaluateWithDeps exampleEvaluators exampleContext [excludingPolicy, noShellPolicy]
         exampleRisk exampleDeps
       = evaluateWithDeps exampleEvaluators exampleContext [noShellPolicy]
           exampleRisk exampleDeps"
  using out_of_scope_policies_never_contribute [where ps = "[excludingPolicy, noShellPolicy]"
      and ctx = exampleContext and evs = exampleEvaluators and rsk = exampleRisk
      and deps = exampleDeps and p = excludingPolicy and e = None]
  by (simp add: outOfScope_def excludingPolicy_def noShellPolicy_def policyWith_def
      unscoped_def exampleContext_def)

text \<open>
  A policy whose enabled flag is false, handed to the evaluator, is evaluated like any
  other: here it denies.
\<close>

theorem disabled_policy_counterexample:
  "enabled disabledPolicy = Some False
   \<and> action (evaluateWithDeps exampleEvaluators exampleContext [disabledPolicy]
         exampleRisk exampleDeps) = Deny
   \<and> matches (evaluateWithDeps exampleEvaluators exampleContext [disabledPolicy]
         exampleRisk exampleDeps)
       = [\<lparr> policyId = ''off'', ruleId = ''blocked'',
            matched_effect = EffDeny (Some ''switched off'') \<rparr>]"
  by (simp add: disabledPolicy_def denyRule_def policyWith_def ruleWith_def unscoped_def
      evaluateWithDeps_def applicablePolicies_def sortStable_def matchesScope_def
      evaluatePolicyWithDeps_def initialAggregation_def noteMatch_def
      minTrustFails_def maxTrustFails_def)

subsection \<open>Auxiliary facts about the risk assessor\<close>

lemma foldl_five:
  "foldl (\<lambda>sum f. sum + value f) 0 [a, b, c, d, e] = value a + value b + value c + value d + value e"
  by simp




lemma assess_factors:
  "factors (assess u ov ctx tr now) =
     [toolFactor u ov ctx, timeFactor ctx, trustFactor u ctx, frequencyFactor u ctx tr now,
      targetFactor ctx]"
  unfolding assess_def Let_def by simp





lemma count_filter_entries:
  "length (filter (\<lambda>slot. case slot of None \<Rightarrow> False | Some e \<Rightarrow> P e) slots)
     = length (filter P (List.map_filter (\<lambda>slot. slot) slots))"
  by (induction slots) (auto simp: List.map_filter_simps split: option.splits)

lemma tracker_count_agent:
  "tracker_count t now 60 ScopeAgent aid skey = recentByAgent t now aid"
  unfolding tracker_count_def recentByAgent_def entries_def
  by (simp add: count_filter_entries withinWindow_def scopeMatches_def)

subsection \<open>Risk assessor\<close>




text \<open>
  C7 (as amended). The frequency factor of a risk assessment, the fourth of its
  factors, equals \<open>min (c / 20) 1 * 15\<close>, where \<open>c\<close> is the number of recorded
  actions within the last 60 seconds that match the context's agent id. The count is
  taken with scope agent, so the session key of an entry plays no part.
\<close>

theorem frequency_factor_counts_by_agent:
  "factors (assess u ov ctx tr now) ! 3 = frequencyFactor u ctx tr now
   \<and> name (frequencyFactor u ctx tr now) = ''frequency''
   \<and> value (frequencyFactor u ctx tr now)
       = min (real (recentByAgent tr now (agentId ctx)) / 20) 1 * 15"
  by (simp add: assess_factors frequencyFactor_def tracker_count_agent Let_def)

theorem frequency_factor_counts_by_agent_witness:
  "recentByAgent busyTracker 1000 (agentId exampleContext) = 3
   \<and> value (factors (assess exampleUtil Map.empty exampleContext busyTracker 1000) ! 3) = 9 / 4"
proof -
  have c: "recentByAgent busyTracker 1000 (agentId exampleContext) = 3"
    by (simp add: recentByAgent_def entries_def busyTracker_def otherSessionEntry_def
        exampleContext_def List.map_filter_simps)
  show ?thesis
    using frequency_factor_counts_by_agent [of exampleUtil Map.empty exampleContext busyTracker 1000]
    by (simp add: c)
qed

text \<open>
  Three recent actions of the same agent in another session count towards the factor,
  although none of them matches both the agent id and the session key.
\<close>

theorem frequency_factor_session_counterexample:
  "recentByAgentAndSession busyTracker 1000 (agentId exampleContext) (sessionKey exampleContext) = 0
   \<and> value (factors (assess exampleUtil Map.empty exampleContext busyTracker 1000) ! 3) = 9 / 4
   \<and> value (factors (assess exampleUtil Map.empty exampleContext busyTracker 1000) ! 3)
       \<noteq> min (real (recentByAgentAndSession busyTracker 1000 (agentId exampleContext)
                       (sessionKey exampleContext)) / 20) 1 * 15"
proof -
  have b: "recentByAgentAndSession busyTracker 1000 (agentId exampleContext)
             (sessionKey exampleContext) = 0"
    by (simp add: recentByAgentAndSession_def entries_def busyTracker_def otherSessionEntry_def
        exampleContext_def List.map_filter_simps)
  have v: "value (factors (assess exampleUtil Map.empty exampleContext busyTracker 1000) ! 3) = 9 / 4"
    by (simp add: assess_factors frequencyFactor_def tracker_count_def busyTracker_def
        otherSessionEntry_def exampleContext_def withinWindow_def scopeMatches_def)
  show ?thesis
    by (simp add: b v)
qed

subsection \<open>Auxiliary facts about the engine\<close>

lemma evaluateTry_throw:
  assumes "evaluateTry eng env st ctx = Inl (e, st')"
  shows "stats st' = stats st \<and> auditTrail st' = auditTrail st \<and> errorLog st' = errorLog st"
  using assms unfolding evaluateTry_def Let_def
  by (auto split: sum.splits)

lemma evaluateTry_throws_iff:
  "(\<exists>st'. evaluateTry eng env st ctx = Inl (e, st'))
   \<longleftrightarrow> (enrichContext env ctx = Inl e
        \<or> (\<exists>c. enrichContext env ctx = Inr c
                \<and> resolveEffectivePolicies env c (policyIndex st) = Inl e))"
  unfolding evaluateTry_def Let_def
  by (auto split: sum.splits)

lemma evaluateTry_return:
  assumes "evaluateTry eng env st ctx = Inr (v, st')"
  shows "stats st' = updateStats (stats st) (verdict_action v) (evaluationUs v)"
  using assms unfolding evaluateTry_def Let_def
  by (auto split: sum.splits if_splits)

lemma updateStats_counts:
  "totalEvaluations (updateStats s a us) = totalEvaluations s + 1
   \<and> allowCount (updateStats s a us) + denyCount (updateStats s a us)
       = allowCount s + denyCount s + 1
   \<and> errorCount (updateStats s a us) = errorCount s"
  by (simp add: updateStats_def Let_def)

lemma evaluate_on_throw:
  assumes "evaluateTry eng env st ctx = Inl (e, st')"
  shows "evaluate eng env st ctx = evaluateCatch eng env st' ctx e"
  using assms by (simp add: evaluate_def)

lemma evaluate_balanced:
  assumes "statsBalanced (stats st)"
  shows "statsBalanced (stats (snd (evaluate eng env st ctx)))"
proof (cases "evaluateTry eng env st ctx")
  case (Inl a)
  obtain e st' where a: "a = (e, st')" by (cases a)
  have "stats st' = stats st"
    using evaluateTry_throw Inl a by blast
  then show ?thesis
    using assms Inl a
    by (simp add: evaluate_def evaluateCatch_def Let_def statsBalanced_def)
next
  case (Inr b)
  obtain v st' where b: "b = (v, st')" by (cases b)
  have "stats st' = updateStats (stats st) (verdict_action v) (evaluationUs v)"
    using evaluateTry_return Inr b by blast
  then show ?thesis
    using assms Inr b updateStats_counts [of "stats st" "verdict_action v" "evaluationUs v"]
    by (simp add: evaluate_def statsBalanced_def)
qed

lemma evaluateAll_balanced:
  "statsBalanced (stats st) \<Longrightarrow> statsBalanced (stats (evaluateAll eng st calls))"
proof (induction calls arbitrary: st)
  case Nil
  then show ?case by simp
next
  case (Cons call calls)
  obtain env ctx where call: "call = (env, ctx)" by (cases call)
  show ?case
    using Cons.IH [OF evaluate_balanced [OF Cons.prems, of eng env ctx]] call by simp
qed

lemmas engine_fixture_defs = exampleEngine_def exampleConfig_def quietEnv_def throwingEnv_def
  newEngineState_def initialStats_def newFrequencyTracker_def

subsection \<open>Engine orchestrator\<close>



text \<open>
  C9. After any sequence of \<^verbatim>\<open>GovernanceEngine.evaluate\<close> calls on a newly
  constructed engine, the statistics satisfy totalEvaluations = allowCount + denyCount
  (and the equation is kept from any state that satisfies it). An evaluation that ends
  on the error-fallback path increments errorCount only: totalEvaluations, the two
  outcome counters and the running mean avgEvaluationUs are unchanged.
\<close>

theorem stats_balanced_after_any_run:
  "totalEvaluations (stats (evaluateAll eng (newEngineState (config eng)) calls))
     = allowCount (stats (evaluateAll eng (newEngineState (config eng)) calls))
       + denyCount (stats (evaluateAll eng (newEngineState (config eng)) calls))
   \<and> (totalEvaluations (stats st0) = allowCount (stats st0) + denyCount (stats st0)
        \<longrightarrow> totalEvaluations (stats (evaluateAll eng st0 calls))
              = allowCount (stats (evaluateAll eng st0 calls))
                + denyCount (stats (evaluateAll eng st0 calls)))
   \<and> (enrichContext env ctx = Inl e
          \<or> (\<exists>c. enrichContext env ctx = Inr c
                  \<and> resolveEffectivePolicies env c (policyIndex st) = Inl e)
        \<longrightarrow> stats (snd (evaluate eng env st ctx))
              = (stats st)\<lparr> errorCount := errorCount (stats st) + 1 \<rparr>)"
proof -
  have init: "statsBalanced (stats (newEngineState (config eng)))"
    by (simp add: statsBalanced_def newEngineState_def initialStats_def)
  have fresh: "statsBalanced (stats (evaluateAll eng (newEngineState (config eng)) calls))"
    using init by (rule evaluateAll_balanced)
  have any: "statsBalanced (stats (evaluateAll eng st0 calls))" if "statsBalanced (stats st0)"
    using that by (rule evaluateAll_balanced)
  have err: "stats (snd (evaluate eng env st ctx))
              = (stats st)\<lparr> errorCount := errorCount (stats st) + 1 \<rparr>"
    if t: "enrichContext env ctx = Inl e
          \<or> (\<exists>c. enrichContext env ctx = Inr c
                  \<and> resolveEffectivePolicies env c (policyIndex st) = Inl e)"
  proof -
    obtain st' where h: "evaluateTry eng env st ctx = Inl (e, st')"
      using t evaluateTry_throws_iff [of eng env st ctx e] by blast
    have "stats st' = stats st"
      using evaluateTry_throw [OF h] by simp
    then show ?thesis
      by (simp add: evaluate_on_throw [OF h] evaluateCatch_def Let_def)
  qed
  show ?thesis
    using fresh any err by (simp add: statsBalanced_def)
qed

theorem stats_balanced_after_any_run_witness:
  "stats (evaluateAll exampleEngine (newEngineState exampleConfig)
            [(throwingEnv, exampleContext), (quietEnv, exampleContext)])
     = \<lparr> totalEvaluations = 1, allowCount = 0, denyCount = 1, errorCount = 1,
         avgEvaluationUs = 10 \<rparr>
   \<and> stats (snd (evaluate exampleEngine throwingEnv (newEngineState exampleConfig)
        exampleContext))
     = \<lparr> totalEvaluations = 0, allowCount = 0, denyCount = 0, errorCount = 1,
         avgEvaluationUs = 0 \<rparr>"
proof -
  have h: "enrichContext throwingEnv exampleContext = Inl (Thrown ''boom'')
           \<or> (\<exists>c. enrichContext throwingEnv exampleContext = Inr c
                   \<and> resolveEffectivePolicies throwingEnv c
                         (policyIndex (newEngineState exampleConfig)) = Inl (Thrown ''boom''))"
    by (simp add: throwingEnv_def quietEnv_def)
  have thrown: "stats (snd (evaluate exampleEngine throwingEnv (newEngineState exampleConfig)
        exampleContext))
     = (stats (newEngineState exampleConfig))
         \<lparr> errorCount := errorCount (stats (newEngineState exampleConfig)) + 1 \<rparr>"
    using stats_balanced_after_any_run [where eng = exampleEngine and env = throwingEnv
        and st = "newEngineState exampleConfig" and ctx = exampleContext
        and e = "Thrown ''boom''"] h
    by blast
  have run: "stats (evaluateAll exampleEngine (newEngineState exampleConfig)
            [(throwingEnv, exampleContext), (quietEnv, exampleContext)])
     = \<lparr> totalEvaluations = 1, allowCount = 0, denyCount = 1, errorCount = 1,
         avgEvaluationUs = 10 \<rparr>"
    by (simp add: engine_fixture_defs evaluate_def evaluateTry_def evaluateCatch_def Let_def
        updateStats_def tracker_record_def fixture_defs run_defs)
  show ?thesis
    using thrown run by (simp add: newEngineState_def initialStats_def)
qed

end
